theory Spec2Isabelle
  imports Main
begin

section \<open>The two development servers: \<open>serve.py\<close> and \<open>test/serve.py\<close>\<close>

text \<open>
  The repository holds two scripts. Both start Python's \<open>socketserver.TCPServer\<close> with a
  request handler that adds three CORS headers, open a browser on a test page and serve
  until interrupted; \<open>test/serve.py\<close> first looks for a free port.

  The scripts are a sequence of calls into the operating system and Python's standard
  library. The model makes every such call an event of a trace, and takes what the call
  answers (whether a bind succeeds, whether the browser opens, how the serve loop ends,
  what \<open>int\<close> makes of a string) from an environment that is a parameter of every
  definition. Exceptions are values: a call returns \<open>Inl e\<close> when it raises \<open>e\<close>.
  \<open>print\<close> and \<open>os.chdir\<close> (to a directory above the running script) are taken to
  succeed; the standard library is CPython's.
\<close>

subsection \<open>Paths\<close>

text \<open>
  A \<open>pathlib\<close> path: its anchor (the root, empty for a relative path) and its components.
  \<open>Path.parent\<close> drops the last component and is the path itself when there is none.
\<close>

record path =
  anchor :: string
  parts :: "string list"

definition parent :: "path \<Rightarrow> path" where
  "parent p = (if parts p = [] then p else p\<lparr>parts := butlast (parts p)\<rparr>)"

subsection \<open>Exceptions, events and the environment\<close>

datatype exn = OSError | OverflowError | ValueError | AttributeError | SystemExit int

text \<open>
  What constructing \<open>socketserver.TCPServer(("", port), ...)\<close> answers: the socket is bound
  and listening, or the constructor raises. \<open>OSError\<close> is what a port in use raises;
  CPython's \<open>socket.bind\<close> raises \<open>OverflowError\<close> (not an \<open>OSError\<close>) for a port outside
  \<open>0..65535\<close>.
\<close>

datatype bind_outcome = Bound | Raises exn

text \<open>\<open>webbrowser.open\<close> returns a flag or raises; the scripts catch whatever it raises.\<close>

datatype browser_outcome = Opened bool | BrowserRaises

text \<open>
  \<open>httpd.serve_forever()\<close> has no exit of its own: it ends with the \<open>KeyboardInterrupt\<close> of
  an interrupt, with another exception, or never.
\<close>

datatype serve_outcome = Interrupted | Crashes exn | NeverReturns

datatype event =
    Listen int
  | BindError int
  | Close int
  | Print string
  | Chdir path
  | OpenBrowser string
  | ServeForever int

text \<open>
  The environment. \<open>tcp_bind env k port\<close> is the answer to the process's \<open>k\<close>-th
  construction of a \<open>TCPServer\<close> (counted from 0) when it asks for \<open>port\<close>: other processes
  may take or free a port between two attempts, so the answer depends on \<open>k\<close>.
  \<open>py_int env s\<close> is Python's \<open>int(s)\<close>, \<open>None\<close> where it raises \<open>ValueError\<close>.
\<close>

record env =
  py_int :: "string \<Rightarrow> int option"
  tcp_bind :: "nat \<Rightarrow> int \<Rightarrow> bind_outcome"
  browser_open :: browser_outcome
  serve_loop :: serve_outcome

text \<open>The process: how many servers it has tried to construct, and what it has done.\<close>

record proc =
  nbinds :: nat
  trace :: "event list"

definition init :: proc where
  "init = \<lparr>nbinds = 0, trace = []\<rparr>"

definition emit :: "event \<Rightarrow> proc \<Rightarrow> proc" where
  "emit e s = s\<lparr>trace := trace s @ [e]\<rparr>"

text \<open>How a run of \<open>main\<close> ends: it returns, an exception leaves it, or it serves forever.\<close>

datatype outcome = Finished | Uncaught exn | Serving

text \<open>
  The status the interpreter exits with: 0 when the script runs to its end, the argument
  of \<open>sys.exit\<close>, 1 for any other exception that nothing caught.
\<close>

fun exit_status :: "outcome \<Rightarrow> int option" where
  "exit_status Finished = Some 0"
| "exit_status (Uncaught (SystemExit n)) = Some n"
| "exit_status (Uncaught e) = Some 1"
| "exit_status Serving = None"

subsection \<open>Formatting\<close>

text \<open>\<open>str\<close> of an integer, as an f-string prints it.\<close>

fun digits :: "nat \<Rightarrow> string" where
  "digits n =
     (if n < 10 then [''0123456789'' ! n]
      else digits (n div 10) @ [''0123456789'' ! (n mod 10)])"

declare digits.simps [simp del]

definition str :: "int \<Rightarrow> string" where
  "str i = (if i < 0 then CHR ''-'' # digits (nat (- i)) else digits (nat i))"

subsection \<open>Library calls\<close>

definition TCPServer :: "env \<Rightarrow> int \<Rightarrow> proc \<Rightarrow> (exn + unit) \<times> proc" where
  "TCPServer env port s =
     (let s' = s\<lparr>nbinds := Suc (nbinds s)\<rparr> in
      case tcp_bind env (nbinds s) port of
        Bound \<Rightarrow> (Inr (), emit (Listen port) s')
      | Raises e \<Rightarrow> (Inl e, emit (BindError port) s'))"

definition webbrowser_open :: "env \<Rightarrow> string \<Rightarrow> proc \<Rightarrow> (unit + bool) \<times> proc" where
  "webbrowser_open env url s =
     (case browser_open env of
        Opened b \<Rightarrow> (Inr b, emit (OpenBrowser url) s)
      | BrowserRaises \<Rightarrow> (Inl (), emit (OpenBrowser url) s))"

subsection \<open>\<open>find_free_port\<close> (test/serve.py)\<close>

text \<open>
  The \<open>for\<close> loop over \<open>range(start_port, start_port + max_attempts)\<close>. The \<open>with\<close> statement
  closes the server as the \<open>return\<close> leaves it; \<open>except OSError\<close> catches an \<open>OSError\<close> and
  nothing else.
\<close>

fun find_free_port_loop :: "env \<Rightarrow> int list \<Rightarrow> proc \<Rightarrow> (exn + int option) \<times> proc" where
  "find_free_port_loop env [] s = (Inr None, s)"
| "find_free_port_loop env (port # rest) s =
     (case TCPServer env port s of
        (Inr _, s1) \<Rightarrow> (Inr (Some port), emit (Close port) s1)
      | (Inl e, s1) \<Rightarrow>
          (if e = OSError then find_free_port_loop env rest s1 else (Inl e, s1)))"

definition find_free_port :: "env \<Rightarrow> int \<Rightarrow> int \<Rightarrow> proc \<Rightarrow> (exn + int option) \<times> proc" where
  "find_free_port env start_port max_attempts s =
     find_free_port_loop env [start_port .. start_port + max_attempts - 1] s"

subsection \<open>The \<open>with socketserver.TCPServer(("", port), CORSRequestHandler) as httpd\<close> block\<close>

text \<open>
  The block is the same in both scripts but for the path of the test page
  (\<open>/test.html\<close> in serve.py, \<open>/test/test.html\<close> in test/serve.py). The constructor is
  outside every \<open>try\<close>; the browser is opened under \<open>try: ... except: pass\<close>; the serve loop
  under \<open>except KeyboardInterrupt\<close>; leaving the block closes the server.
\<close>

definition with_httpd :: "env \<Rightarrow> int \<Rightarrow> string \<Rightarrow> proc \<Rightarrow> outcome \<times> proc" where
  "with_httpd env port page s =
     (case TCPServer env port s of
        (Inl e, s1) \<Rightarrow> (Uncaught e, s1)
      | (Inr _, s1) \<Rightarrow>
          (let s2 = emit (Print (''Serving at http://localhost:'' @ str port @ ''/'')) s1;
               s3 = emit (Print (''Open test page: http://localhost:'' @ str port @ page)) s2;
               s4 = (case webbrowser_open env (''http://localhost:'' @ str port @ page) s3 of
                       (Inr _, t) \<Rightarrow> t
                     | (Inl _, t) \<Rightarrow> t);
               s5 = emit (Print ''Press Ctrl+C to stop the server'') s4;
               s6 = emit (ServeForever port) s5
           in case serve_loop env of
                Interrupted \<Rightarrow>
                  (Finished, emit (Close port) (emit (Print (CHR 0x0A # ''Server stopped.'')) s6))
              | Crashes e \<Rightarrow> (Uncaught e, emit (Close port) s6)
              | NeverReturns \<Rightarrow> (Serving, s6)))"

subsection \<open>\<open>main\<close> of serve.py\<close>

definition serve_main :: "env \<Rightarrow> path \<Rightarrow> string list \<Rightarrow> outcome \<times> proc" where
  "serve_main env file argv =
     (case (if length argv > 1
            then (case py_int env (argv ! 1) of None \<Rightarrow> Inl ValueError | Some n \<Rightarrow> Inr n)
            else Inr 8000) of
        Inl e \<Rightarrow> (Uncaught e, init)
      | Inr port \<Rightarrow>
          (let script_dir = parent file;
               s1 = emit (Chdir script_dir) init
           in with_httpd env port ''/test.html'' s1))"

subsection \<open>\<open>main\<close> of test/serve.py\<close>

definition test_main :: "env \<Rightarrow> path \<Rightarrow> string list \<Rightarrow> outcome \<times> proc" where
  "test_main env file argv =
     (case (if length argv > 1
            then (case py_int env (argv ! 1) of None \<Rightarrow> Inl ValueError | Some n \<Rightarrow> Inr n)
            else Inr 8000) of
        Inl e \<Rightarrow> (Uncaught e, init)
      | Inr requested_port \<Rightarrow>
          (case find_free_port env requested_port 10 init of
             (Inl e, s1) \<Rightarrow> (Uncaught e, s1)
           | (Inr None, s1) \<Rightarrow>
               (Uncaught (SystemExit 1),
                emit (Print (''Error: Could not find an available port starting from ''
                             @ str requested_port)) s1)
           | (Inr (Some port), s1) \<Rightarrow>
               (let s2 = (if port \<noteq> requested_port
                          then emit (Print (''Port '' @ str requested_port
                                            @ '' is in use, using port '' @ str port
                                            @ '' instead'')) s1
                          else s1);
                    script_dir = parent file;
                    project_root = parent script_dir;
                    s3 = emit (Chdir project_root) s2
                in with_httpd env port ''/test/test.html'' s3)))"

subsection \<open>\<open>CORSRequestHandler.end_headers\<close> (the same in both scripts)\<close>



definition lower :: "string \<Rightarrow> string" where
  "lower s = map (\<lambda>c. if (65::nat) \<le> of_char c \<and> of_char c \<le> (90::nat)
                        then char_of (of_char c + (32::nat)) else c) s"





subsection \<open>Sample environments\<close>

text \<open>A reader of plain decimal numerals with an optional minus sign, for the samples.\<close>

fun read_digits :: "string \<Rightarrow> nat \<Rightarrow> nat option" where
  "read_digits [] acc = Some acc"
| "read_digits (c # cs) acc =
     (case map_of (zip ''0123456789'' [0, 1, 2, 3, 4, 5, 6, 7, 8, 9]) c of
        None \<Rightarrow> None
      | Some d \<Rightarrow> read_digits cs (10 * acc + d))"

definition sample_int :: "string \<Rightarrow> int option" where
  "sample_int s =
     (case s of
        [] \<Rightarrow> None
      | c # cs \<Rightarrow>
          if c = CHR ''-''
          then (if cs = [] then None else map_option (\<lambda>n. - int n) (read_digits cs 0))
          else map_option int (read_digits s 0))"

text \<open>
  A host on which the ports of \<open>used\<close> are held by other processes for the whole run, the
  browser opens, and the user interrupts the server.
\<close>

definition host :: "int list \<Rightarrow> env" where
  "host used =
     \<lparr>py_int = sample_int,
      tcp_bind = (\<lambda>k port. if port < 0 \<or> 65535 < port then Raises OverflowError
                           else if port \<in> set used then Raises OSError
                           else Bound),
      browser_open = Opened True,
      serve_loop = Interrupted\<rparr>"

text \<open>A host on which another process takes every port right after the first bind.\<close>

definition racing_host :: env where
  "racing_host = (host [])\<lparr>tcp_bind := (\<lambda>k port. if k = 0 then Bound else Raises OSError)\<rparr>"

definition script :: path where
  "script = \<lparr>anchor = ''/'', parts = [''repo'', ''test'', ''serve.py'']\<rparr>"

subsection \<open>Reading a trace\<close>

text \<open>The ports a server was constructed for, bound or not, in the order of the attempts.\<close>

fun probed :: "event list \<Rightarrow> int list" where
  "probed [] = []"
| "probed (Listen p # tr) = p # probed tr"
| "probed (BindError p # tr) = p # probed tr"
| "probed (e # tr) = probed tr"

text \<open>The ports a socket was bound to and listening on.\<close>

fun listened :: "event list \<Rightarrow> int list" where
  "listened [] = []"
| "listened (Listen p # tr) = p # listened tr"
| "listened (e # tr) = listened tr"

text \<open>The ports \<open>serve_forever\<close> was entered on.\<close>

fun served :: "event list \<Rightarrow> int list" where
  "served [] = []"
| "served (ServeForever p # tr) = p # served tr"
| "served (e # tr) = served tr"

text \<open>The directories the process changed to.\<close>

fun chdirs :: "event list \<Rightarrow> path list" where
  "chdirs [] = []"
| "chdirs (Chdir d # tr) = d # chdirs tr"
| "chdirs (e # tr) = chdirs tr"

text \<open>The lines the script printed.\<close>

fun printed :: "event list \<Rightarrow> string list" where
  "printed [] = []"
| "printed (Print m # tr) = m # printed tr"
| "printed (e # tr) = printed tr"

section \<open>Properties\<close>

subsection \<open>Library calls and the probe loop\<close>

lemma TCPServer_Bound:
  "tcp_bind env (nbinds s) port = Bound \<Longrightarrow>
   TCPServer env port s =
     (Inr (), s\<lparr>nbinds := Suc (nbinds s), trace := trace s @ [Listen port]\<rparr>)"
  by (simp add: TCPServer_def emit_def)

lemma TCPServer_Raises:
  "tcp_bind env (nbinds s) port = Raises e \<Longrightarrow>
   TCPServer env port s =
     (Inl e, s\<lparr>nbinds := Suc (nbinds s), trace := trace s @ [BindError port]\<rparr>)"
  by (simp add: TCPServer_def emit_def)

lemma probed_append [simp]: "probed (xs @ ys) = probed xs @ probed ys"
  by (induction xs rule: probed.induct) simp_all

lemma listened_append [simp]: "listened (xs @ ys) = listened xs @ listened ys"
  by (induction xs rule: listened.induct) simp_all

lemma served_append [simp]: "served (xs @ ys) = served xs @ served ys"
  by (induction xs rule: served.induct) simp_all

lemma chdirs_append [simp]: "chdirs (xs @ ys) = chdirs xs @ chdirs ys"
  by (induction xs rule: chdirs.induct) simp_all

lemma printed_append [simp]: "printed (xs @ ys) = printed xs @ printed ys"
  by (induction xs rule: printed.induct) simp_all

text \<open>Candidates whose bind raises \<open>OSError\<close> are passed over, one attempt each.\<close>

lemma loop_skips_OSError:
  "(\<forall>i<length pre. tcp_bind env (nbinds s + i) (pre ! i) = Raises OSError) \<Longrightarrow>
   find_free_port_loop env (pre @ rest) s =
   find_free_port_loop env rest
     (s\<lparr>nbinds := nbinds s + length pre, trace := trace s @ map BindError pre\<rparr>)"
proof (induction pre arbitrary: s)
  case Nil
  then show ?case by simp
next
  case (Cons p pre)
  from Cons.prems have head: "tcp_bind env (nbinds s) p = Raises OSError"
    by force
  let ?s1 = "s\<lparr>nbinds := Suc (nbinds s), trace := trace s @ [BindError p]\<rparr>"
  from Cons.prems have "\<forall>i<length pre. tcp_bind env (nbinds ?s1 + i) (pre ! i) = Raises OSError"
    by force
  from Cons.IH [OF this] head show ?case
    by (simp add: TCPServer_Raises)
qed

lemma upto_nth_all:
  assumes h: "\<forall>p. a \<le> p \<and> p < q \<longrightarrow> tcp_bind env (n + nat (p - a)) p = v"
  shows "\<forall>i<length [a..q - 1]. tcp_bind env (n + i) ([a..q - 1] ! i) = v"
proof (intro allI impI)
  fix i assume i: "i < length [a..q - 1]"
  then have "a + int i < q" by simp
  with h [rule_format, of "a + int i"] have "tcp_bind env (n + i) (a + int i) = v" by simp
  moreover from i have "[a..q - 1] ! i = a + int i" by simp
  ultimately show "tcp_bind env (n + i) ([a..q - 1] ! i) = v" by simp
qed

text \<open>
  Whatever the environment answers, the loop constructs a server for a prefix of its
  candidates, in their order, and for nothing else; it enters no serve loop, changes no
  directory and prints nothing.
\<close>

lemma loop_attempts:
  "nbinds s \<le> nbinds (snd (find_free_port_loop env ps s)) \<and>
   nbinds (snd (find_free_port_loop env ps s)) \<le> nbinds s + length ps \<and>
   probed (trace (snd (find_free_port_loop env ps s))) =
     probed (trace s) @ take (nbinds (snd (find_free_port_loop env ps s)) - nbinds s) ps"
proof (induction ps arbitrary: s)
  case Nil
  then show ?case by simp
next
  case (Cons p ps)
  show ?case
  proof (cases "tcp_bind env (nbinds s) p")
    case Bound
    then show ?thesis by (simp add: TCPServer_Bound emit_def)
  next
    case (Raises e)
    let ?s1 = "s\<lparr>nbinds := Suc (nbinds s), trace := trace s @ [BindError p]\<rparr>"
    show ?thesis
    proof (cases "e = OSError")
      case True
      from Cons.IH [of ?s1] have
        a: "Suc (nbinds s) \<le> nbinds (snd (find_free_port_loop env ps ?s1))" and
        b: "nbinds (snd (find_free_port_loop env ps ?s1)) \<le> Suc (nbinds s) + length ps" and
        c: "probed (trace (snd (find_free_port_loop env ps ?s1))) =
              probed (trace s) @ [p] @
              take (nbinds (snd (find_free_port_loop env ps ?s1)) - Suc (nbinds s)) ps"
        by simp_all
      from a obtain k where k: "nbinds (snd (find_free_port_loop env ps ?s1)) = Suc (nbinds s) + k"
        using le_Suc_ex by blast
      from Raises True a b c k show ?thesis
        by (simp add: TCPServer_Raises)
    next
      case False
      with Raises show ?thesis by (simp add: TCPServer_Raises)
    qed
  qed
qed

lemma loop_quiet:
  "served (trace (snd (find_free_port_loop env ps s))) = served (trace s) \<and>
   chdirs (trace (snd (find_free_port_loop env ps s))) = chdirs (trace s) \<and>
   printed (trace (snd (find_free_port_loop env ps s))) = printed (trace s)"
proof (induction ps arbitrary: s)
  case Nil
  then show ?case by simp
next
  case (Cons p ps)
  show ?case
  proof (cases "tcp_bind env (nbinds s) p")
    case Bound
    then show ?thesis by (simp add: TCPServer_Bound emit_def)
  next
    case (Raises e)
    with Cons.IH [of "s\<lparr>nbinds := Suc (nbinds s), trace := trace s @ [BindError p]\<rparr>"]
    show ?thesis by (simp add: TCPServer_Raises)
  qed
qed

subsection \<open>The free-port resolver\<close>

text \<open>
  C1 (amended). \<open>find_free_port\<close> tries the candidates \<open>start_port\<close>, \<open>start_port + 1\<close>, ... in
  increasing order, one server construction each, and stops at the first candidate \<open>q\<close>
  whose construction does not raise \<open>OSError\<close>. If that construction succeeded, the server
  is closed at once and \<open>q\<close> is returned; if it raised another exception, the exception
  leaves \<open>find_free_port\<close>; if every one of the \<open>max_attempts\<close> candidates raised \<open>OSError\<close>,
  the result is \<open>None\<close>. The trace lists the attempts in their order.
\<close>

theorem find_free_port_first_settled:
  assumes fails: "\<forall>p. start_port \<le> p \<and> p < q \<longrightarrow>
                    tcp_bind env (nbinds s + nat (p - start_port)) p = Raises OSError"
  shows "(start_port \<le> q \<and> q < start_port + max_attempts \<and>
          tcp_bind env (nbinds s + nat (q - start_port)) q = Bound \<longrightarrow>
            find_free_port env start_port max_attempts s =
              (Inr (Some q),
               s\<lparr>nbinds := nbinds s + nat (q - start_port) + 1,
                 trace := trace s @ map BindError [start_port .. q - 1] @ [Listen q, Close q]\<rparr>))
       \<and> (start_port \<le> q \<and> q < start_port + max_attempts \<and>
          tcp_bind env (nbinds s + nat (q - start_port)) q = Raises e \<and> e \<noteq> OSError \<longrightarrow>
            find_free_port env start_port max_attempts s =
              (Inl e,
               s\<lparr>nbinds := nbinds s + nat (q - start_port) + 1,
                 trace := trace s @ map BindError [start_port .. q]\<rparr>))
       \<and> (q = start_port + max_attempts \<longrightarrow>
            find_free_port env start_port max_attempts s =
              (Inr None,
               s\<lparr>nbinds := nbinds s + nat max_attempts,
                 trace := trace s @ map BindError [start_port .. start_port + max_attempts - 1]\<rparr>))"
proof -
  let ?pre = "[start_port .. q - 1]"
  let ?s1 = "s\<lparr>nbinds := nbinds s + length ?pre, trace := trace s @ map BindError ?pre\<rparr>"
  have skip: "find_free_port_loop env (?pre @ rest) s = find_free_port_loop env rest ?s1" for rest
    by (rule loop_skips_OSError) (rule upto_nth_all [OF fails])
  have split: "[start_port .. start_port + max_attempts - 1]
                 = ?pre @ q # [q + 1 .. start_port + max_attempts - 1]"
    if "start_port \<le> q" "q < start_port + max_attempts"
    using that by (simp add: upto_split3)
  have last: "map BindError [start_port .. q] = map BindError ?pre @ [BindError q]"
    if "start_port \<le> q"
    using that by (simp add: upto_rec2)
  show ?thesis
  proof (intro conjI impI)
    assume "start_port \<le> q \<and> q < start_port + max_attempts \<and>
            tcp_bind env (nbinds s + nat (q - start_port)) q = Bound"
    then show "find_free_port env start_port max_attempts s =
              (Inr (Some q),
               s\<lparr>nbinds := nbinds s + nat (q - start_port) + 1,
                 trace := trace s @ map BindError [start_port .. q - 1] @ [Listen q, Close q]\<rparr>)"
      by (simp add: find_free_port_def split skip TCPServer_Bound emit_def)
  next
    assume "start_port \<le> q \<and> q < start_port + max_attempts \<and>
            tcp_bind env (nbinds s + nat (q - start_port)) q = Raises e \<and> e \<noteq> OSError"
    then show "find_free_port env start_port max_attempts s =
              (Inl e,
               s\<lparr>nbinds := nbinds s + nat (q - start_port) + 1,
                 trace := trace s @ map BindError [start_port .. q]\<rparr>)"
      by (simp add: find_free_port_def split skip TCPServer_Raises last)
  next
    assume "q = start_port + max_attempts"
    with skip [of "[]"] show "find_free_port env start_port max_attempts s =
              (Inr None,
               s\<lparr>nbinds := nbinds s + nat max_attempts,
                 trace := trace s @ map BindError [start_port .. start_port + max_attempts - 1]\<rparr>)"
      by (simp add: find_free_port_def)
  qed
qed

text \<open>
  The three cases on sample hosts: ports 8000 and 8001 taken; ports 8000 to 8009 taken;
  port 65535 taken, so that the next candidate is no port at all.
\<close>

theorem find_free_port_first_settled_witness:
  "find_free_port (host [8000, 8001]) 8000 10 init =
     (Inr (Some 8002),
      \<lparr>nbinds = 3, trace = [BindError 8000, BindError 8001, Listen 8002, Close 8002]\<rparr>)
   \<and> find_free_port (host [8000 .. 8009]) 8000 10 init =
     (Inr None,
      \<lparr>nbinds = 10,
        trace = [BindError 8000, BindError 8001, BindError 8002, BindError 8003, BindError 8004,
                 BindError 8005, BindError 8006, BindError 8007, BindError 8008, BindError 8009]\<rparr>)
   \<and> find_free_port (host [65535]) 65535 10 init =
     (Inl OverflowError, \<lparr>nbinds = 2, trace = [BindError 65535, BindError 65536]\<rparr>)"
proof (intro conjI)
  have "\<forall>p. 8000 \<le> p \<and> p < 8002 \<longrightarrow>
          tcp_bind (host [8000, 8001]) (nbinds init + nat (p - 8000)) p = Raises OSError"
    by (auto simp: host_def)
  from find_free_port_first_settled [OF this, of 10 OSError]
  show "find_free_port (host [8000, 8001]) 8000 10 init =
     (Inr (Some 8002),
      \<lparr>nbinds = 3, trace = [BindError 8000, BindError 8001, Listen 8002, Close 8002]\<rparr>)"
    by (simp add: host_def init_def upto_rec1)
next
  let ?h = "host [8000 .. 8009]"
  have "\<forall>p. 8000 \<le> p \<and> p < 8010 \<longrightarrow>
          tcp_bind ?h (nbinds init + nat (p - 8000)) p = Raises OSError"
    by (simp add: host_def del: upto_rec_numeral)
  from find_free_port_first_settled [OF this, of 10 OSError]
  show "find_free_port ?h 8000 10 init =
     (Inr None,
      \<lparr>nbinds = 10,
        trace = [BindError 8000, BindError 8001, BindError 8002, BindError 8003, BindError 8004,
                 BindError 8005, BindError 8006, BindError 8007, BindError 8008, BindError 8009]\<rparr>)"
    by (simp add: init_def upto_rec1)
next
  have "\<forall>p. 65535 \<le> p \<and> p < 65536 \<longrightarrow>
          tcp_bind (host [65535]) (nbinds init + nat (p - 65535)) p = Raises OSError"
    by (auto simp: host_def)
  from find_free_port_first_settled [OF this, of 10 OverflowError]
  show "find_free_port (host [65535]) 65535 10 init =
     (Inl OverflowError, \<lparr>nbinds = 2, trace = [BindError 65535, BindError 65536]\<rparr>)"
    by (simp add: host_def init_def upto_rec1)
qed

text \<open>
  C1 as stated fails where a candidate is not a port: asked to start at 70000, or at
  65535 when that port is taken, no candidate binds, and yet \<open>find_free_port\<close> does not
  return \<open>None\<close>: the \<open>OverflowError\<close> of the bind leaves it, after one attempt and after
  two.
\<close>

theorem find_free_port_counterexample:
  "find_free_port (host []) 70000 10 init =
     (Inl OverflowError, \<lparr>nbinds = 1, trace = [BindError 70000]\<rparr>)
   \<and> find_free_port (host [65535]) 65535 10 init =
     (Inl OverflowError, \<lparr>nbinds = 2, trace = [BindError 65535, BindError 65536]\<rparr>)"
  by (simp add: find_free_port_def host_def init_def upto_rec1 TCPServer_def emit_def)

lemma loop_returns_candidate:
  "fst (find_free_port_loop env ps s) = Inr (Some port) \<Longrightarrow> port \<in> set ps"
proof (induction ps arbitrary: s)
  case Nil
  then show ?case by simp
next
  case (Cons p ps)
  show ?case
  proof (cases "tcp_bind env (nbinds s) p")
    case Bound
    with Cons.prems show ?thesis by (simp add: TCPServer_Bound)
  next
    case (Raises e)
    with Cons.prems Cons.IH [of "s\<lparr>nbinds := Suc (nbinds s), trace := trace s @ [BindError p]\<rparr>"]
    show ?thesis by (simp add: TCPServer_Raises split: if_splits)
  qed
qed

lemma find_free_port_10:
  "find_free_port env P 10 s = find_free_port_loop env [P .. P + 9] s"
proof -
  have "P + 10 - 1 = P + 9" by simp
  then show ?thesis by (simp only: find_free_port_def)
qed

subsection \<open>The serving block\<close>

lemma with_httpd_Raises:
  "tcp_bind env (nbinds s) port = Raises e \<Longrightarrow>
   with_httpd env port page s =
     (Uncaught e, s\<lparr>nbinds := Suc (nbinds s), trace := trace s @ [BindError port]\<rparr>)"
  by (simp add: with_httpd_def TCPServer_Raises)

lemma with_httpd_Bound:
  "tcp_bind env (nbinds s) port = Bound \<Longrightarrow>
   with_httpd env port page s =
     (case serve_loop env of
        Interrupted \<Rightarrow> Finished
      | Crashes e \<Rightarrow> Uncaught e
      | NeverReturns \<Rightarrow> Serving,
      s\<lparr>nbinds := Suc (nbinds s),
        trace := trace s @
          [Listen port,
           Print (''Serving at http://localhost:'' @ str port @ ''/''),
           Print (''Open test page: http://localhost:'' @ str port @ page),
           OpenBrowser (''http://localhost:'' @ str port @ page),
           Print ''Press Ctrl+C to stop the server'',
           ServeForever port] @
          (case serve_loop env of
             Interrupted \<Rightarrow> [Print (CHR 0x0A # ''Server stopped.''), Close port]
           | Crashes e \<Rightarrow> [Close port]
           | NeverReturns \<Rightarrow> [])\<rparr>)"
  by (cases "serve_loop env"; cases "browser_open env")
     (simp_all add: with_httpd_def TCPServer_Bound webbrowser_open_def emit_def)

lemma with_httpd_attempt:
  "nbinds (snd (with_httpd env port page s)) = Suc (nbinds s) \<and>
   probed (trace (snd (with_httpd env port page s))) = probed (trace s) @ [port]"
  by (cases "tcp_bind env (nbinds s) port"; cases "serve_loop env")
     (simp_all add: with_httpd_Bound with_httpd_Raises)

subsection \<open>Port exhaustion\<close>

text \<open>
  C2 (amended). Let \<open>P\<close> be the requested port of test/serve.py. If the bind of every
  port of \<open>[P, P+9]\<close> raises \<open>OSError\<close> at its attempt, the run makes exactly these ten
  attempts, in increasing order, prints the message that no port was found and exits with
  status 1. Whatever the binds answer, the search makes at most ten attempts, for the
  ports \<open>P, P+1, ...\<close> in this order and each once, and no server is ever constructed, in
  the search or after it, for a port outside \<open>[P, P+9]\<close>.
\<close>

theorem test_main_port_exhaustion:
  assumes port: "(if length argv > 1 then py_int env (argv ! 1) else Some 8000) = Some P"
  shows "((\<forall>p. P \<le> p \<and> p \<le> P + 9 \<longrightarrow> tcp_bind env (nat (p - P)) p = Raises OSError) \<longrightarrow>
            test_main env file argv =
              (Uncaught (SystemExit 1),
               \<lparr>nbinds = 10,
                 trace = map BindError [P .. P + 9] @
                   [Print (''Error: Could not find an available port starting from '' @ str P)]\<rparr>)
            \<and> exit_status (fst (test_main env file argv)) = Some 1)
       \<and> nbinds (snd (find_free_port env P 10 init)) \<le> 10
       \<and> probed (trace (snd (find_free_port env P 10 init))) =
            take (nbinds (snd (find_free_port env P 10 init))) [P .. P + 9]
       \<and> set (probed (trace (snd (test_main env file argv)))) \<subseteq> {P .. P + 9}"
proof (intro conjI impI)
  assume "\<forall>p. P \<le> p \<and> p \<le> P + 9 \<longrightarrow> tcp_bind env (nat (p - P)) p = Raises OSError"
  then have "\<forall>p. P \<le> p \<and> p < P + 10 \<longrightarrow> tcp_bind env (nbinds init + nat (p - P)) p = Raises OSError"
    by (simp add: init_def)
  from upto_nth_all [OF this]
  have "\<forall>i<length [P .. P + 9]. tcp_bind env (nbinds init + i) ([P .. P + 9] ! i) = Raises OSError"
    by simp
  from loop_skips_OSError [OF this, of "[]"]
  have "find_free_port env P 10 init =
          (Inr None, init\<lparr>nbinds := 10, trace := map BindError [P .. P + 9]\<rparr>)"
    by (simp add: find_free_port_10 init_def)
  with port show run: "test_main env file argv =
          (Uncaught (SystemExit 1),
           \<lparr>nbinds = 10,
             trace = map BindError [P .. P + 9] @
               [Print (''Error: Could not find an available port starting from '' @ str P)]\<rparr>)"
    by (simp add: test_main_def emit_def init_def split: if_splits option.splits)
  then show "exit_status (fst (test_main env file argv)) = Some 1"
    by simp
next
  from loop_attempts [of init env "[P .. P + 9]"]
  show "nbinds (snd (find_free_port env P 10 init)) \<le> 10"
    by (simp add: find_free_port_10 init_def)
next
  from loop_attempts [of init env "[P .. P + 9]"]
  show "probed (trace (snd (find_free_port env P 10 init))) =
          take (nbinds (snd (find_free_port env P 10 init))) [P .. P + 9]"
    by (simp add: find_free_port_10 init_def)
next
  let ?r = "find_free_port env P 10 init"
  have cand: "set (probed (trace (snd ?r))) \<subseteq> {P .. P + 9}"
  proof -
    from loop_attempts [of init env "[P .. P + 9]"]
    have "probed (trace (snd ?r)) = take (nbinds (snd ?r)) [P .. P + 9]"
      by (simp add: find_free_port_10 init_def)
    then have "set (probed (trace (snd ?r))) \<subseteq> set [P .. P + 9]"
      by (simp only: set_take_subset)
    then show ?thesis by simp
  qed
  have quiet: "printed (trace (snd ?r)) = []"
    using loop_quiet [of env "[P .. P + 9]" init] by (simp add: find_free_port_10 init_def)
  show "set (probed (trace (snd (test_main env file argv)))) \<subseteq> {P .. P + 9}"
  proof (cases ?r)
    case (Pair res s1)
    show ?thesis
    proof (cases res)
      case (Inl e)
      with Pair port cand show ?thesis
        by (simp add: test_main_def split: if_splits option.splits)
    next
      case (Inr found)
      show ?thesis
      proof (cases found)
        case None
        with Inr Pair port cand show ?thesis
          by (simp add: test_main_def emit_def split: if_splits option.splits)
      next
        case (Some q)
        with Inr Pair have "fst (find_free_port_loop env [P .. P + 9] init) = Inr (Some q)"
          by (simp add: find_free_port_10)
        from loop_returns_candidate [OF this] have q: "P \<le> q \<and> q \<le> P + 9"
          by simp
        from Some Inr Pair port cand q
          with_httpd_attempt [of env q "''/test/test.html''"]
        show ?thesis
          by (simp add: test_main_def emit_def Let_def split: if_splits option.splits)
      qed
    qed
  qed
qed

theorem test_main_port_exhaustion_witness:
  "test_main (host [8000 .. 8009]) script [''test/serve.py''] =
     (Uncaught (SystemExit 1),
      \<lparr>nbinds = 10,
        trace = [BindError 8000, BindError 8001, BindError 8002, BindError 8003, BindError 8004,
                 BindError 8005, BindError 8006, BindError 8007, BindError 8008, BindError 8009,
                 Print ''Error: Could not find an available port starting from 8000'']\<rparr>)
   \<and> exit_status (fst (test_main (host [8000 .. 8009]) script [''test/serve.py''])) = Some 1"
proof -
  let ?h = "host [8000 .. 8009]"
  have port: "(if length [''test/serve.py''] > 1 then py_int ?h ([''test/serve.py''] ! 1)
               else Some 8000) = Some 8000"
    by simp
  have taken: "\<forall>p. 8000 \<le> p \<and> p \<le> 8000 + 9 \<longrightarrow> tcp_bind ?h (nat (p - 8000)) p = Raises OSError"
    by (simp add: host_def del: upto_rec_numeral)
  from test_main_port_exhaustion [OF port, of script] taken
  show ?thesis
    by (simp add: str_def digits.simps upto_rec1 del: upto_rec_numeral)
qed

text \<open>
  C2 as stated fails for a request that is not a port: on a host with no port taken, the
  bind of each of 70000 to 70009 fails, and the run ends at the first of them with the
  uncaught \<open>OverflowError\<close>; the script has printed nothing, and the interpreter's
  traceback is all the user sees.
\<close>

theorem test_main_port_exhaustion_counterexample:
  "map (tcp_bind (host []) 0) [70000 .. 70009] = replicate 10 (Raises OverflowError)
   \<and> test_main (host []) script [''test/serve.py'', ''70000''] =
       (Uncaught OverflowError, \<lparr>nbinds = 1, trace = [BindError 70000]\<rparr>)
   \<and> printed (trace (snd (test_main (host []) script [''test/serve.py'', ''70000'']))) = []"
proof -
  have run: "test_main (host []) script [''test/serve.py'', ''70000''] =
       (Uncaught OverflowError, \<lparr>nbinds = 1, trace = [BindError 70000]\<rparr>)"
    by (simp add: test_main_def find_free_port_10 host_def sample_int_def init_def
        upto_rec1 TCPServer_def emit_def)
  have "map (tcp_bind (host []) 0) [70000 .. 70009] = replicate 10 (Raises OverflowError)"
    by (simp add: host_def upto_rec1 numeral_eq_Suc)
  with run show ?thesis by simp
qed

subsection \<open>The CORS headers\<close>

lemma lower_cors [simp]:
  "lower ''Access-Control-Allow-Origin'' \<noteq> ''connection''"
  "lower ''Access-Control-Allow-Methods'' \<noteq> ''connection''"
  "lower ''Access-Control-Allow-Headers'' \<noteq> ''connection''"
  by (simp_all add: lower_def)




subsection \<open>Which port is served\<close>

lemma loop_finds:
  assumes "\<forall>i<length pre. tcp_bind env (nbinds s + i) (pre ! i) = Raises OSError"
      and "tcp_bind env (nbinds s + length pre) q = Bound"
  shows "find_free_port_loop env (pre @ q # post) s =
           (Inr (Some q),
            s\<lparr>nbinds := Suc (nbinds s + length pre),
              trace := trace s @ map BindError pre @ [Listen q, Close q]\<rparr>)"
  using assms by (simp add: loop_skips_OSError TCPServer_Bound emit_def)

text \<open>
  C4. Let \<open>P\<close> be the requested port. If \<open>P\<close> is free (a bind of \<open>P\<close> succeeds whenever it is
  attempted), serve.py constructs one server, for \<open>P\<close>, and serves on it. test/serve.py
  serves on the first free port \<open>q\<close> of \<open>[P, P+9]\<close>, the ports below it being in use (their
  binds raise \<open>OSError\<close>): it tries \<open>P, ..., q\<close> in the search, binds \<open>q\<close> there and once more
  for serving, and serves on \<open>q\<close>; this is \<open>P\<close> itself when \<open>P\<close> is free.
\<close>

theorem binds_requested_or_first_free:
  assumes port: "(if length argv > 1 then py_int env (argv ! 1) else Some 8000) = Some P"
  shows "((\<forall>k. tcp_bind env k P = Bound) \<longrightarrow>
            probed (trace (snd (serve_main env file argv))) = [P] \<and>
            listened (trace (snd (serve_main env file argv))) = [P] \<and>
            served (trace (snd (serve_main env file argv))) = [P])
       \<and> (P \<le> q \<and> q \<le> P + 9 \<and>
          (\<forall>k p. P \<le> p \<and> p < q \<longrightarrow> tcp_bind env k p = Raises OSError) \<and>
          (\<forall>k. tcp_bind env k q = Bound) \<longrightarrow>
            probed (trace (snd (test_main env file argv))) = [P .. q] @ [q] \<and>
            listened (trace (snd (test_main env file argv))) = [q, q] \<and>
            served (trace (snd (test_main env file argv))) = [q])
       \<and> ((\<forall>k. tcp_bind env k P = Bound) \<longrightarrow>
            probed (trace (snd (test_main env file argv))) = [P, P] \<and>
            listened (trace (snd (test_main env file argv))) = [P, P] \<and>
            served (trace (snd (test_main env file argv))) = [P])"
proof -
  have fixed: "probed (trace (snd (serve_main env file argv))) = [P] \<and>
               listened (trace (snd (serve_main env file argv))) = [P] \<and>
               served (trace (snd (serve_main env file argv))) = [P]"
    if free: "\<forall>k. tcp_bind env k P = Bound"
  proof -
    from free have "tcp_bind env (nbinds (emit (Chdir (parent file)) init)) P = Bound"
      by simp
    from with_httpd_Bound [OF this, of "''/test.html''"] port show ?thesis
      by (cases "serve_loop env")
         (simp_all add: serve_main_def emit_def init_def split: if_splits option.splits)
  qed
  have probing: "probed (trace (snd (test_main env file argv))) = [P .. q] @ [q] \<and>
                 listened (trace (snd (test_main env file argv))) = [q, q] \<and>
                 served (trace (snd (test_main env file argv))) = [q]"
    if range: "P \<le> q" "q \<le> P + 9"
      and used: "\<forall>k p. P \<le> p \<and> p < q \<longrightarrow> tcp_bind env k p = Raises OSError"
      and free: "\<forall>k. tcp_bind env k q = Bound"
    for q
  proof -
    let ?pre = "[P .. q - 1]"
    from used have "\<forall>p. P \<le> p \<and> p < q \<longrightarrow> tcp_bind env (nbinds init + nat (p - P)) p = Raises OSError"
      by simp
    from upto_nth_all [OF this]
    have pre: "\<forall>i<length ?pre. tcp_bind env (nbinds init + i) (?pre ! i) = Raises OSError" .
    from free have at: "tcp_bind env (nbinds init + length ?pre) q = Bound"
      by simp
    from range have split: "[P .. P + 9] = ?pre @ q # [q + 1 .. P + 9]"
      by (simp add: upto_split3)
    from range have all: "[P .. q] = ?pre @ [q]"
      by (simp add: upto_rec2)
    have listened_pre: "listened (map BindError xs) = []" for xs
      by (induction xs) simp_all
    have served_pre: "served (map BindError xs) = []" for xs
      by (induction xs) simp_all
    have probed_pre: "probed (map BindError xs) = xs" for xs
      by (induction xs) simp_all
    let ?s1 = "init\<lparr>nbinds := Suc (nbinds init + length ?pre),
                    trace := trace init @ map BindError ?pre @ [Listen q, Close q]\<rparr>"
    from loop_finds [OF pre at, of "[q + 1 .. P + 9]"] split
    have probe: "find_free_port env P 10 init = (Inr (Some q), ?s1)"
      by (simp only: find_free_port_10)
    have serve: "tcp_bind env (nbinds s) q = Bound" for s
      using free by simp
    from port probe all show ?thesis
      by (cases "serve_loop env")
         (simp_all add: test_main_def Let_def emit_def init_def with_httpd_Bound [OF serve]
            listened_pre served_pre probed_pre
            split: if_splits option.splits del: upto_rec_numeral)
  qed
  have at_P: "probed (trace (snd (test_main env file argv))) = [P, P] \<and>
              listened (trace (snd (test_main env file argv))) = [P, P] \<and>
              served (trace (snd (test_main env file argv))) = [P]"
    if free: "\<forall>k. tcp_bind env k P = Bound"
  proof -
    have none: "\<forall>k p. P \<le> p \<and> p < P \<longrightarrow> tcp_bind env k p = Raises OSError"
      by auto
    have "P \<le> P" "P \<le> P + 9" by simp_all
    from probing [OF this none free] show ?thesis by simp
  qed
  from fixed probing at_P show ?thesis
    by blast
qed

text \<open>Port 8000 free; and ports 8000 and 8001 in use, with 8002 free.\<close>

theorem binds_requested_or_first_free_witness:
  "served (trace (snd (serve_main (host []) script [''serve.py'', ''8000'']))) = [8000]
   \<and> listened (trace (snd (serve_main (host []) script [''serve.py'', ''8000'']))) = [8000]
   \<and> served (trace (snd (test_main (host []) script [''test/serve.py'', ''8000'']))) = [8000]
   \<and> probed (trace (snd (test_main (host [8000, 8001]) script [''test/serve.py'', ''8000''])))
       = [8000, 8001, 8002, 8002]
   \<and> served (trace (snd (test_main (host [8000, 8001]) script [''test/serve.py'', ''8000'']))) = [8002]"
proof -
  let ?argv = "[''serve.py'', ''8000'']" and ?targv = "[''test/serve.py'', ''8000'']"
  have a: "(if length ?argv > 1 then py_int (host []) (?argv ! 1) else Some 8000) = Some 8000"
    by (simp add: host_def sample_int_def)
  have b: "(if length ?targv > 1 then py_int (host [8000, 8001]) (?targv ! 1) else Some 8000)
             = Some 8000"
    by (simp add: host_def sample_int_def)
  have free: "\<forall>k. tcp_bind (host []) k 8000 = Bound"
    by (simp add: host_def)
  have used: "\<forall>k p. 8000 \<le> p \<and> p < 8002 \<longrightarrow> tcp_bind (host [8000, 8001]) k p = Raises OSError"
    by (auto simp: host_def)
  have free2: "\<forall>k. tcp_bind (host [8000, 8001]) k 8002 = Bound"
    by (simp add: host_def)
  from binds_requested_or_first_free [OF a, of script 8000] free
  have 1: "served (trace (snd (serve_main (host []) script ?argv))) = [8000]
         \<and> listened (trace (snd (serve_main (host []) script ?argv))) = [8000]"
    by simp
  have a': "(if length ?targv > 1 then py_int (host []) (?targv ! 1) else Some 8000) = Some 8000"
    by (simp add: host_def sample_int_def)
  from binds_requested_or_first_free [OF a', of script 8000] free
  have 2: "served (trace (snd (test_main (host []) script ?targv))) = [8000]"
    by simp
  from binds_requested_or_first_free [OF b, of script 8002] used free2
  have 3: "probed (trace (snd (test_main (host [8000, 8001]) script ?targv)))
             = [8000, 8001, 8002, 8002]
         \<and> served (trace (snd (test_main (host [8000, 8001]) script ?targv))) = [8002]"
    by (simp add: upto_rec1)
  from 1 2 3 show ?thesis by simp
qed

subsection \<open>Interrupting the serve loop\<close>

lemma served_mem: "p \<in> set (served tr) \<longleftrightarrow> ServeForever p \<in> set tr"
  by (induction tr rule: served.induct) auto

lemma find_free_port_quiet:
  "served (trace (snd (find_free_port env P m s))) = served (trace s) \<and>
   chdirs (trace (snd (find_free_port env P m s))) = chdirs (trace s) \<and>
   printed (trace (snd (find_free_port env P m s))) = printed (trace s)"
  by (simp only: find_free_port_def loop_quiet)

text \<open>The serving block under an interrupt, from a state that has not served yet.\<close>

lemma with_httpd_interrupted:
  assumes int: "serve_loop env = Interrupted"
      and before: "served (trace s) = []"
      and reached: "ServeForever p \<in> set (trace (snd (with_httpd env port page s)))"
  shows "fst (with_httpd env port page s) = Finished \<and>
         (\<exists>pre. trace (snd (with_httpd env port page s)) =
            pre @ [ServeForever p, Print (CHR 0x0A # ''Server stopped.''), Close p])"
proof (cases "tcp_bind env (nbinds s) port")
  case Bound
  from before have no: "ServeForever p \<notin> set (trace s)"
    using served_mem [of p "trace s"] by simp
  from reached no int have "p = port"
    by (simp add: with_httpd_Bound [OF Bound])
  with int show ?thesis
    by (simp add: with_httpd_Bound [OF Bound])
next
  case (Raises e)
  from before have "ServeForever p \<notin> set (trace s)"
    using served_mem [of p "trace s"] by simp
  with reached show ?thesis
    by (simp add: with_httpd_Raises [OF Raises])
qed

text \<open>
  C5. In every run of either script that has entered the serve loop, on a port \<open>p\<close>, and
  in which the loop ends with the interrupt, \<open>main\<close> returns with no exception: the last
  things the run does after entering the loop are to print the shutdown message and to
  close the server, and the exit status is 0.
\<close>

theorem interrupt_clean_shutdown:
  assumes int: "serve_loop env = Interrupted"
  shows "(ServeForever p \<in> set (trace (snd (serve_main env file argv))) \<longrightarrow>
            fst (serve_main env file argv) = Finished \<and>
            exit_status (fst (serve_main env file argv)) = Some 0 \<and>
            (\<exists>pre. trace (snd (serve_main env file argv)) =
               pre @ [ServeForever p, Print (CHR 0x0A # ''Server stopped.''), Close p]))
       \<and> (ServeForever p \<in> set (trace (snd (test_main env file argv))) \<longrightarrow>
            fst (test_main env file argv) = Finished \<and>
            exit_status (fst (test_main env file argv)) = Some 0 \<and>
            (\<exists>pre. trace (snd (test_main env file argv)) =
               pre @ [ServeForever p, Print (CHR 0x0A # ''Server stopped.''), Close p]))"
proof (intro conjI impI)
  assume reached: "ServeForever p \<in> set (trace (snd (serve_main env file argv)))"
  then obtain port where
    run: "serve_main env file argv = with_httpd env port ''/test.html'' (emit (Chdir (parent file)) init)"
    by (auto simp: serve_main_def init_def split: if_splits option.splits)
  have "served (trace (emit (Chdir (parent file)) init)) = []"
    by (simp add: emit_def init_def)
  from with_httpd_interrupted [OF int this] reached run
  show fin: "fst (serve_main env file argv) = Finished"
    and "\<exists>pre. trace (snd (serve_main env file argv)) =
               pre @ [ServeForever p, Print (CHR 0x0A # ''Server stopped.''), Close p]"
    by simp_all
  then show "exit_status (fst (serve_main env file argv)) = Some 0"
    by simp
next
  assume reached: "ServeForever p \<in> set (trace (snd (test_main env file argv)))"
  then obtain P where port: "(if length argv > 1 then py_int env (argv ! 1) else Some 8000) = Some P"
    by (auto simp: test_main_def init_def split: if_splits option.splits)
  obtain res s1 where probe: "find_free_port env P 10 init = (res, s1)"
    by (cases "find_free_port env P 10 init")
  from find_free_port_quiet [of env P 10 init] probe
  have quiet: "served (trace s1) = []"
    by (simp add: init_def)
  then have no: "ServeForever p \<notin> set (trace s1)"
    using served_mem [of p "trace s1"] by simp
  from reached port probe no obtain q s3 where
    run: "test_main env file argv = with_httpd env q ''/test/test.html'' s3" and
    s3: "served (trace s3) = []"
  proof (cases res)
    case (Inl e)
    with reached port probe no show ?thesis
      by (simp add: test_main_def split: if_splits option.splits)
  next
    case (Inr found)
    show ?thesis
    proof (cases found)
      case None
      with Inr reached port probe no show ?thesis
        by (simp add: test_main_def emit_def split: if_splits option.splits)
    next
      case (Some q)
      let ?s2 = "if q \<noteq> P
                 then emit (Print (''Port '' @ str P @ '' is in use, using port '' @ str q
                                   @ '' instead'')) s1
                 else s1"
      let ?s3 = "emit (Chdir (parent (parent file))) ?s2"
      from Some Inr port probe
      have "test_main env file argv = with_httpd env q ''/test/test.html'' ?s3"
        by (simp add: test_main_def Let_def split: if_splits option.splits)
      moreover from quiet have "served (trace ?s3) = []"
        by (simp add: emit_def)
      ultimately show ?thesis by (rule that)
    qed
  qed
  from with_httpd_interrupted [OF int s3] reached run
  show "fst (test_main env file argv) = Finished"
    and "\<exists>pre. trace (snd (test_main env file argv)) =
               pre @ [ServeForever p, Print (CHR 0x0A # ''Server stopped.''), Close p]"
    by simp_all
  then show "exit_status (fst (test_main env file argv)) = Some 0"
    by simp
qed

text \<open>Both scripts on a host with port 8000 free and a user who interrupts the server.\<close>

theorem interrupt_clean_shutdown_witness:
  "serve_loop (host []) = Interrupted
   \<and> ServeForever 8000 \<in> set (trace (snd (serve_main (host []) script [''serve.py''])))
   \<and> fst (serve_main (host []) script [''serve.py'']) = Finished
   \<and> exit_status (fst (serve_main (host []) script [''serve.py''])) = Some 0
   \<and> ServeForever 8000 \<in> set (trace (snd (test_main (host []) script [''test/serve.py''])))
   \<and> fst (test_main (host []) script [''test/serve.py'']) = Finished
   \<and> exit_status (fst (test_main (host []) script [''test/serve.py''])) = Some 0"
proof -
  have int: "serve_loop (host []) = Interrupted"
    by (simp add: host_def)
  have free: "tcp_bind (host []) k 8000 = Bound" for k
    by (simp add: host_def)
  have a: "ServeForever 8000 \<in> set (trace (snd (serve_main (host []) script [''serve.py''])))"
    by (simp add: serve_main_def Let_def with_httpd_Bound [OF free] int)
  have probe: "find_free_port (host []) 8000 10 init
                 = (Inr (Some 8000), init\<lparr>nbinds := 1, trace := [Listen 8000, Close 8000]\<rparr>)"
    by (simp add: find_free_port_def upto_rec1 TCPServer_Bound [OF free] emit_def init_def
          del: upto_rec_numeral)
  have b: "ServeForever 8000 \<in> set (trace (snd (test_main (host []) script [''test/serve.py''])))"
    by (simp add: test_main_def Let_def probe with_httpd_Bound [OF free] int)
  from interrupt_clean_shutdown [OF int, of 8000 script "[''serve.py'']"]
       interrupt_clean_shutdown [OF int, of 8000 script "[''test/serve.py'']"] a b int
  show ?thesis by simp
qed

subsection \<open>The browser launch\<close>





subsection \<open>The command line\<close>

lemma loop_first_attempt:
  "take 1 (probed (trace (snd (find_free_port_loop env (p # ps) s)))) =
     take 1 (probed (trace s) @ [p])"
proof (cases "tcp_bind env (nbinds s) p")
  case Bound
  then show ?thesis by (simp add: TCPServer_Bound emit_def)
next
  case (Raises e)
  let ?s1 = "s\<lparr>nbinds := Suc (nbinds s), trace := trace s @ [BindError p]\<rparr>"
  from loop_attempts [of ?s1 env ps]
  have "probed (trace (snd (find_free_port_loop env ps ?s1))) =
          (probed (trace s) @ [p]) @
          take (nbinds (snd (find_free_port_loop env ps ?s1)) - Suc (nbinds s)) ps"
    by simp
  with Raises show ?thesis
    by (simp add: TCPServer_Raises del: append_assoc)
qed

text \<open>
  C7. Both scripts read one thing of the command line, \<open>argv[1]\<close>: the script's name and
  any further argument change nothing. Without \<open>argv[1]\<close> a run is the run with the
  argument \<open>8000\<close>. With it, \<open>int(argv[1])\<close> is the port: the first port the run asks the
  operating system for. (Neither \<open>main\<close> has another input: the model's only parameters
  beside the command line are the script's path and the answers of the system.)
\<close>

theorem cli_port_argument:
  "serve_main env file (a0 # a1 # rest) = serve_main env file [b0, a1]
   \<and> test_main env file (a0 # a1 # rest) = test_main env file [b0, a1]
   \<and> (length argv \<le> 1 \<and> py_int env ''8000'' = Some 8000 \<longrightarrow>
        serve_main env file argv = serve_main env file [b0, ''8000''] \<and>
        test_main env file argv = test_main env file [b0, ''8000''])
   \<and> (py_int env a1 = Some P \<longrightarrow>
        take 1 (probed (trace (snd (serve_main env file (a0 # a1 # rest))))) = [P] \<and>
        take 1 (probed (trace (snd (test_main env file (a0 # a1 # rest))))) = [P])"
proof (intro conjI impI)
  show "serve_main env file (a0 # a1 # rest) = serve_main env file [b0, a1]"
    by (simp add: serve_main_def)
  show "test_main env file (a0 # a1 # rest) = test_main env file [b0, a1]"
    by (simp add: test_main_def)
next
  assume "length argv \<le> 1 \<and> py_int env ''8000'' = Some 8000"
  then show "serve_main env file argv = serve_main env file [b0, ''8000'']"
    and "test_main env file argv = test_main env file [b0, ''8000'']"
    by (simp_all add: serve_main_def test_main_def)
next
  assume port: "py_int env a1 = Some P"
  from port with_httpd_attempt [of env P "''/test.html''" "emit (Chdir (parent file)) init"]
  show "take 1 (probed (trace (snd (serve_main env file (a0 # a1 # rest))))) = [P]"
    by (simp add: serve_main_def emit_def init_def)
  have cands: "[P .. P + 9] = P # [P + 1 .. P + 9]"
    by (simp add: upto_rec1)
  have first: "take 1 (probed (trace (snd (find_free_port env P 10 init)))) = [P]"
    using loop_first_attempt [of env P "[P + 1 .. P + 9]" init]
    by (simp only: find_free_port_10 cands) (simp add: init_def)
  obtain res s1 where probe: "find_free_port env P 10 init = (res, s1)"
    by (cases "find_free_port env P 10 init")
  with first have s1: "take 1 (probed (trace s1)) = [P]"
    by simp
  then have ne: "probed (trace s1) \<noteq> []"
    by auto
  have ext: "take 1 (probed (trace s1) @ xs) = [P]" for xs
    using s1 ne by (cases "probed (trace s1)") simp_all
  show "take 1 (probed (trace (snd (test_main env file (a0 # a1 # rest))))) = [P]"
  proof (cases res)
    case (Inl e)
    with port probe s1 show ?thesis
      by (simp add: test_main_def)
  next
    case (Inr found)
    show ?thesis
    proof (cases found)
      case None
      with Inr port probe ext [of "[]"] show ?thesis
        by (simp add: test_main_def emit_def)
    next
      case (Some q)
      let ?s2 = "if q \<noteq> P
                 then emit (Print (''Port '' @ str P @ '' is in use, using port '' @ str q
                                   @ '' instead'')) s1
                 else s1"
      let ?s3 = "emit (Chdir (parent (parent file))) ?s2"
      have "probed (trace ?s3) = probed (trace s1)"
        by (simp add: emit_def)
      with with_httpd_attempt [of env q "''/test/test.html''" ?s3] ext [of "[q]"]
      have "take 1 (probed (trace (snd (with_httpd env q ''/test/test.html'' ?s3)))) = [P]"
        by simp
      with Some Inr port probe show ?thesis
        by (simp add: test_main_def Let_def)
    qed
  qed
qed

text \<open>
  No argument, an argument, and an argument followed by a flag and a second number, on a
  host with every port free.
\<close>

theorem cli_port_argument_witness:
  "serve_main (host []) script [''serve.py''] = serve_main (host []) script [''serve.py'', ''8000'']
   \<and> test_main (host []) script [''serve.py''] = test_main (host []) script [''serve.py'', ''8000'']
   \<and> serve_main (host []) script [''serve.py'', ''9000'', ''--verbose'', ''7'']
       = serve_main (host []) script [''serve.py'', ''9000'']
   \<and> take 1 (probed (trace (snd (serve_main (host []) script [''serve.py'', ''9000''])))) = [9000]
   \<and> take 1 (probed (trace (snd (test_main (host []) script [''serve.py'', ''9000''])))) = [9000]"
proof -
  have d: "py_int (host []) ''8000'' = Some 8000"
    by (simp add: host_def sample_int_def)
  have p: "py_int (host []) ''9000'' = Some 9000"
    by (simp add: host_def sample_int_def)
  have l: "length [''serve.py''] \<le> 1"
    by simp
  from cli_port_argument [of "host []" script "''serve.py''" "''8000''" "[]" "''serve.py''"
         "[''serve.py'']" 8000] d l
  have 1: "serve_main (host []) script [''serve.py'']
             = serve_main (host []) script [''serve.py'', ''8000'']
         \<and> test_main (host []) script [''serve.py'']
             = test_main (host []) script [''serve.py'', ''8000'']"
    by simp
  from cli_port_argument [of "host []" script "''serve.py''" "''9000''" "[''--verbose'', ''7'']"
         "''serve.py''" "[]" 9000]
  have 2: "serve_main (host []) script [''serve.py'', ''9000'', ''--verbose'', ''7'']
             = serve_main (host []) script [''serve.py'', ''9000'']"
    by simp
  from cli_port_argument [of "host []" script "''serve.py''" "''9000''" "[]" "''serve.py''"
         "[]" 9000] p
  have 3: "take 1 (probed (trace (snd (serve_main (host []) script [''serve.py'', ''9000''])))) = [9000]
         \<and> take 1 (probed (trace (snd (test_main (host []) script [''serve.py'', ''9000''])))) = [9000]"
    by simp
  from 1 2 3 show ?thesis by simp
qed

subsection \<open>An argument that is not a number\<close>

text \<open>
  C10. When the first argument is present and \<open>int\<close> raises \<open>ValueError\<close> on it, a run of
  either script ends with that exception uncaught, and so with exit status 1, in the
  initial state: no server was constructed, no directory changed and nothing printed by
  the script (the interpreter's traceback is written as the process ends).
\<close>

theorem bad_port_argument:
  assumes "length argv > 1" and "py_int env (argv ! 1) = None"
  shows "serve_main env file argv = (Uncaught ValueError, \<lparr>nbinds = 0, trace = []\<rparr>)
       \<and> test_main env file argv = (Uncaught ValueError, \<lparr>nbinds = 0, trace = []\<rparr>)
       \<and> exit_status (fst (serve_main env file argv)) = Some 1
       \<and> exit_status (fst (test_main env file argv)) = Some 1"
  using assms by (simp add: serve_main_def test_main_def init_def)

theorem bad_port_argument_witness:
  "serve_main (host []) script [''serve.py'', ''--port''] =
     (Uncaught ValueError, \<lparr>nbinds = 0, trace = []\<rparr>)
   \<and> test_main (host []) script [''serve.py'', ''80a''] =
     (Uncaught ValueError, \<lparr>nbinds = 0, trace = []\<rparr>)
   \<and> exit_status (fst (serve_main (host []) script [''serve.py'', ''--port''])) = Some 1"
proof -
  have a: "length [''serve.py'', ''--port''] > 1" and b: "length [''serve.py'', ''80a''] > 1"
    by simp_all
  have c: "py_int (host []) ([''serve.py'', ''--port''] ! 1) = None"
    by (simp add: host_def sample_int_def)
  have d: "py_int (host []) ([''serve.py'', ''80a''] ! 1) = None"
    by (simp add: host_def sample_int_def)
  from bad_port_argument [OF a c, of script] bad_port_argument [OF b d, of script]
  show ?thesis by simp
qed

subsection \<open>The working directory\<close>





subsection \<open>The port is not held between the probe and serving\<close>

lemma loop_released:
  "find_free_port_loop env ps s = (Inr (Some q), s1) \<Longrightarrow>
   \<exists>pre. trace s1 = pre @ [Listen q, Close q]"
proof (induction ps arbitrary: s)
  case Nil
  then show ?case by simp
next
  case (Cons p ps)
  show ?case
  proof (cases "tcp_bind env (nbinds s) p")
    case Bound
    with Cons.prems show ?thesis
      by (auto simp: TCPServer_Bound emit_def)
  next
    case (Raises e)
    with Cons.prems Cons.IH [of "s\<lparr>nbinds := Suc (nbinds s), trace := trace s @ [BindError p]\<rparr>"]
    show ?thesis
      by (simp add: TCPServer_Raises split: if_splits)
  qed
qed

text \<open>
  C9. Let the probe of test/serve.py return the port \<open>q\<close>. The probe's own server on \<open>q\<close>
  was closed before \<open>find_free_port\<close> returned: the probe's trace ends with the bind of \<open>q\<close>
  and its release. \<open>main\<close> then constructs a second server for \<open>q\<close>, outside every \<open>try\<close>:
  if this construction raises \<open>e\<close>, the run ends with \<open>e\<close> uncaught, right at that failed
  bind, and the message that no port was found is not printed. Such runs exist: on a
  host where another process takes port 8000 between the two binds, the probe returns
  8000 and the run ends with the uncaught \<open>OSError\<close> of the second bind.
\<close>

theorem probe_does_not_hold_port:
  assumes port: "(if length argv > 1 then py_int env (argv ! 1) else Some 8000) = Some P"
      and probe: "find_free_port env P 10 init = (Inr (Some q), s1)"
      and lost: "tcp_bind env (nbinds s1) q = Raises e"
  shows "(\<exists>pre. trace s1 = pre @ [Listen q, Close q])
       \<and> fst (test_main env file argv) = Uncaught e
       \<and> (\<exists>mid. trace (snd (test_main env file argv)) = trace s1 @ mid @ [BindError q]
                 \<and> probed mid = [])
       \<and> ''Error: Could not find an available port starting from '' @ str P
            \<notin> set (printed (trace (snd (test_main env file argv))))
       \<and> fst (find_free_port racing_host 8000 10 init) = Inr (Some 8000)
       \<and> fst (test_main racing_host file [''test/serve.py'']) = Uncaught OSError"
proof (intro conjI)
  show "fst (find_free_port racing_host 8000 10 init) = Inr (Some 8000)"
    by (simp add: find_free_port_def upto_rec1 TCPServer_def emit_def init_def racing_host_def
          del: upto_rec_numeral)
  show "fst (test_main racing_host file [''test/serve.py'']) = Uncaught OSError"
    by (simp add: test_main_def find_free_port_def upto_rec1 TCPServer_def emit_def init_def
          racing_host_def with_httpd_def Let_def del: upto_rec_numeral)
next
  from probe show "\<exists>pre. trace s1 = pre @ [Listen q, Close q]"
    by (simp only: find_free_port_def) (rule loop_released)
  let ?s2 = "if q \<noteq> P
             then emit (Print (''Port '' @ str P @ '' is in use, using port '' @ str q
                               @ '' instead'')) s1
             else s1"
  let ?s3 = "emit (Chdir (parent (parent file))) ?s2"
  from lost have "tcp_bind env (nbinds ?s3) q = Raises e"
    by (auto simp: emit_def)
  from with_httpd_Raises [OF this, of "''/test/test.html''"] port probe
  have run: "test_main env file argv =
          (Uncaught e, ?s3\<lparr>nbinds := Suc (nbinds ?s3), trace := trace ?s3 @ [BindError q]\<rparr>)"
    by (simp add: test_main_def Let_def split: if_splits option.splits)
  then show "fst (test_main env file argv) = Uncaught e"
    by simp
  from run show "\<exists>mid. trace (snd (test_main env file argv)) = trace s1 @ mid @ [BindError q]
                 \<and> probed mid = []"
    by (cases "q = P") (simp_all add: emit_def)
  from find_free_port_quiet [of env P 10 init] probe
  have "printed (trace s1) = []"
    by (simp add: init_def)
  with run show "''Error: Could not find an available port starting from '' @ str P
            \<notin> set (printed (trace (snd (test_main env file argv))))"
    by (cases "q = P") (simp_all add: emit_def)
qed

text \<open>
  Port 8000 is free when the probe tries it and taken by another process before \<open>main\<close>
  binds it again.
\<close>

theorem probe_does_not_hold_port_witness:
  "find_free_port racing_host 8000 10 init =
     (Inr (Some 8000), \<lparr>nbinds = 1, trace = [Listen 8000, Close 8000]\<rparr>)
   \<and> tcp_bind racing_host 1 8000 = Raises OSError
   \<and> fst (test_main racing_host script [''test/serve.py'']) = Uncaught OSError
   \<and> ''Error: Could not find an available port starting from 8000''
        \<notin> set (printed (trace (snd (test_main racing_host script [''test/serve.py'']))))"
proof -
  let ?s1 = "\<lparr>nbinds = 1, trace = [Listen 8000, Close 8000]\<rparr>"
  have port: "(if length [''test/serve.py''] > 1 then py_int racing_host ([''test/serve.py''] ! 1)
               else Some 8000) = Some 8000"
    by simp
  have probe: "find_free_port racing_host 8000 10 init = (Inr (Some 8000), ?s1)"
    by (simp add: find_free_port_def upto_rec1 TCPServer_def emit_def init_def racing_host_def
          del: upto_rec_numeral)
  have lost: "tcp_bind racing_host (nbinds ?s1) 8000 = Raises OSError"
    by (simp add: racing_host_def)
  from probe_does_not_hold_port [OF port probe lost, of script] probe lost
  show ?thesis
    by (simp add: str_def digits.simps)
qed

end
